theory Spec2Isabelle
  imports Complex_Main "HOL-Library.Word" "HOL-Library.AList"
begin

unbundle bit_operations_syntax

section \<open>JSON values\<close>

text \<open>
  The collector stores everything as \<^verbatim>\<open>nlohmann::json\<close> values. An object is kept as an
  association list; it is read by key (\<open>map_of\<close>), written with \<open>AList.update\<close>
  (\<^verbatim>\<open>operator[]\<close> followed by assignment) and shrunk with \<open>AList.delete\<close> (\<^verbatim>\<open>erase\<close>).
  \<open>JInt\<close> holds the integer numbers and \<open>JFloat\<close> the value of a \<^verbatim>\<open>double\<close>.
\<close>

datatype json =
    JNull
  | JBool bool
  | JInt int
  | JFloat rat
  | JStr string
  | JArr "json list"
  | JObj "(string \<times> json) list"

type_synonym members = "(string \<times> json) list"

definition put :: "string \<Rightarrow> json \<Rightarrow> members \<Rightarrow> members" where
  "put k v ms = AList.update k v ms"

definition jget :: "json \<Rightarrow> string \<Rightarrow> json option" where
  "jget j k = (case j of JObj ms \<Rightarrow> map_of ms k | _ \<Rightarrow> None)"

text \<open>
  \<^verbatim>\<open>json::merge_patch\<close> belongs to nlohmann/json, the library the collector includes as
  \<^verbatim>\<open>json/single_include/nlohmann/json.hpp\<close>; it implements RFC 7386. An object patch is
  merged member by member into the target, which first becomes an empty object if it is
  not one; a member whose patch is null is erased, every other member is merged
  recursively into the target's member of that key (created as null when absent); a patch
  that is not an object replaces the target.
\<close>

fun merge_patch :: "json \<Rightarrow> json \<Rightarrow> json"
  and merge_members :: "members \<Rightarrow> members \<Rightarrow> members" where
  "merge_patch target (JObj ps) =
     JObj (merge_members (case target of JObj ms \<Rightarrow> ms | _ \<Rightarrow> []) ps)"
| "merge_patch target JNull = JNull"
| "merge_patch target (JBool b) = JBool b"
| "merge_patch target (JInt i) = JInt i"
| "merge_patch target (JFloat r) = JFloat r"
| "merge_patch target (JStr s) = JStr s"
| "merge_patch target (JArr xs) = JArr xs"
| "merge_members ms [] = ms"
| "merge_members ms ((k, v) # ps) =
     merge_members
       (if v = JNull then AList.delete k ms
        else AList.update k
               (merge_patch (case map_of ms k of Some t \<Rightarrow> t | None \<Rightarrow> JNull) v) ms)
       ps"

section \<open>Strings and number formatting\<close>

text \<open>
  Strings are lists of 8-bit code units. The wide strings the collector receives from WMI
  and DXGI are modelled the same way: each code unit is one \<open>char\<close>.
\<close>

definition tolower_c :: "char \<Rightarrow> char" where
  \<comment> \<open>\<^verbatim>\<open>::tolower\<close> in the C locale: only A to Z change.\<close>
  "tolower_c c =
     (if (65::nat) \<le> of_char c \<and> of_char c \<le> (90::nat) then char_of (of_char c + (32::nat)) else c)"

definition lower :: "string \<Rightarrow> string" where
  "lower s = map tolower_c s"

fun str_contains :: "string \<Rightarrow> string \<Rightarrow> bool" where
  \<comment> \<open>\<^verbatim>\<open>hay.find(needle) != npos\<close>\<close>
  "str_contains [] needle = (needle = [])"
| "str_contains (h # hs) needle =
     (take (length needle) (h # hs) = needle \<or> str_contains hs needle)"

definition keep_char :: "char \<Rightarrow> bool" where
  "keep_char c =
     (((32::nat) \<le> of_char c \<and> of_char c \<le> (126::nat)) \<or>
      ((194::nat) \<le> of_char c \<and> of_char c \<le> (244::nat)))"

definition is_space :: "char \<Rightarrow> bool" where
  \<comment> \<open>the set \<^verbatim>\<open>" \t\r\n"\<close>\<close>
  "is_space c = (of_char c \<in> {32::nat, 9, 13, 10})"

definition sanitizeString :: "string \<Rightarrow> string" where
  "sanitizeString input =
     (if input = [] then ''N/A''
      else
        (let output = map (\<lambda>c. if keep_char c then c else CHR '' '') input;
             from_start = dropWhile is_space output
         in if from_start = [] then ''N/A''
            else rev (dropWhile is_space (rev from_start))))"

definition safeWMIString :: "string option \<Rightarrow> string" where
  \<comment> \<open>\<open>None\<close> is a property whose variant is \<^verbatim>\<open>VT_NULL\<close> or \<^verbatim>\<open>VT_EMPTY\<close>.\<close>
  "safeWMIString v = (case v of None \<Rightarrow> ''N/A'' | Some s \<Rightarrow> sanitizeString s)"

definition digit_char :: "nat \<Rightarrow> char" where
  "digit_char d = (''0123456789abcdef'' ! d)"



fun to_string :: "nat \<Rightarrow> string" where
  \<comment> \<open>\<^verbatim>\<open>std::to_string\<close> of an unsigned value\<close>
  "to_string n =
     (if n < 10 then [digit_char n] else to_string (n div 10) @ [digit_char (n mod 10)])"

declare to_string.simps [simp del]





section \<open>The runtime library, exceptions and log entries\<close>

text \<open>
  What the C++ runtime and the JSON library compute is a parameter of the model:
  \<^item> \<open>std_hash\<close>: \<^verbatim>\<open>std::hash<std::string>\<close>, on a 64-bit \<^verbatim>\<open>size_t\<close>;
  \<^item> \<open>fixed2 b\<close>: the text \<^verbatim>\<open>std::fixed << std::setprecision(2)\<close> prints for the
    \<^verbatim>\<open>double\<close> value of \<open>b\<close> bytes divided by \<open>1024^3\<close>;
  \<^item> \<open>round2 b\<close>: the \<^verbatim>\<open>double\<close> \<^verbatim>\<open>round(b / 1024^3 * 100) / 100.0\<close>;
  \<^item> \<open>dump j\<close>: \<^verbatim>\<open>json::dump\<close>, which raises on a string that is not valid UTF-8.
\<close>

datatype exn =
    StdException string  \<comment> \<open>derived from \<^verbatim>\<open>std::exception\<close>, with its \<^verbatim>\<open>what()\<close>\<close>
  | OtherException       \<comment> \<open>any other thrown object (a COM error, for instance)\<close>

record runtime =
  std_hash :: "string \<Rightarrow> 64 word"
  fixed2 :: "nat \<Rightarrow> string"
  round2 :: "nat \<Rightarrow> rat"
  dump :: "json \<Rightarrow> exn + string"

text \<open>
  The observable trace: an adapter being invoked, an entry handed to the log callback by
  \<^verbatim>\<open>systemLog\<close> (level, message) and an entry written by \<^verbatim>\<open>Logger::error\<close> (component,
  message). Of the \<^verbatim>\<open>systemLog\<close> entries only those of level ERROR are part of the model.
\<close>

datatype event =
    Invoke string
  | SystemLog string string
  | LoggerError string string

text \<open>
  What a call of an adapter does: the (component, message) entries it writes through
  \<^verbatim>\<open>Logger::error\<close>, and the value it returns or the exception that leaves it.
\<close>

type_synonym 'a call = "(string \<times> string) list \<times> (exn + 'a)"

definition logError :: "string \<Rightarrow> string \<Rightarrow> string \<times> string" where
  \<comment> \<open>\<^verbatim>\<open>Logger::error("SystemInfo", function + ": " + e.what())\<close>\<close>
  "logError function what = (''SystemInfo'', function @ '': '' @ what)"

text \<open>
  The \<^verbatim>\<open>try { ... } catch (const std::exception&)\<close> frame of an adapter. \<open>fault\<close> is the
  exception, if any, that a library call raises once the \<^verbatim>\<open>try\<close> block is entered (the
  adapter's accumulator still holds its initial value then): a \<^verbatim>\<open>std::exception\<close> is
  logged and the adapter returns \<open>fallback\<close>; any other exception leaves the adapter.
\<close>

definition guarded :: "string \<Rightarrow> 'a \<Rightarrow> exn option \<Rightarrow> 'a \<Rightarrow> 'a call" where
  "guarded function fallback fault result =
     (case fault of
        None \<Rightarrow> ([], Inr result)
      | Some (StdException what) \<Rightarrow> ([logError function what], Inr fallback)
      | Some OtherException \<Rightarrow> ([], Inl OtherException))"

text \<open>The outcome of a WMI query: no service pointer, a failed query, or the rows read.\<close>

datatype 'r wmi = NoService | QueryFailed | Rows "'r list"

definition rows_of :: "'r wmi \<Rightarrow> 'r list" where
  "rows_of q = (case q of Rows rs \<Rightarrow> rs | _ \<Rightarrow> [])"

section \<open>Device identity and device name\<close>







section \<open>Motherboard, audio and GPU adapters\<close>




definition board_defaults :: members where
  "board_defaults =
     [(''product_name'', JStr ''N/A''), (''manufacturer'', JStr ''N/A''),
      (''bios_version'', JStr ''N/A''), (''bios_serial'', JStr ''N/A''),
      (''board_serial'', JStr ''N/A'')]"













section \<open>Memory and network adapters\<close>

record slot_row =
  slot_Capacity :: "nat option"       \<comment> \<open>the value \<^verbatim>\<open>_wtoi64\<close> reads, in bytes\<close>
  slot_Speed :: "32 word option"
  slot_DeviceLocator :: "string option"
  slot_Manufacturer :: "string option"

record memory_probe =
  ullTotalPhys :: "64 word"
  ullAvailPhys :: "64 word"
  dwMemoryLoad :: "32 word"
  memory_slots :: "slot_row wmi"

definition GiB :: nat where
  "GiB = 1024 * 1024 * 1024"

definition slot_info :: "slot_row \<Rightarrow> json" where
  "slot_info r =
     JObj
       (put ''manufacturer''
          (JStr (case slot_Manufacturer r of
                   Some s \<Rightarrow> safeWMIString (Some s) | None \<Rightarrow> ''N/A''))
          (put ''slot''
             (JStr (case slot_DeviceLocator r of
                      Some s \<Rightarrow> safeWMIString (Some s) | None \<Rightarrow> ''Unknown Slot''))
             (put ''speed''
                (JStr (case slot_Speed r of
                         Some v \<Rightarrow> to_string (unat v) | None \<Rightarrow> ''N/A MHz''))
                (case slot_Capacity r of
                   Some c \<Rightarrow> put ''capacity'' (JStr (to_string (c div GiB))) []
                 | None \<Rightarrow> []))))"

definition total_capacity :: "slot_row list \<Rightarrow> nat" where
  \<comment> \<open>the sum of the capacities in GiB, cut to an integer; the \<^verbatim>\<open>double\<close> sum is exact
      below \<open>2^53\<close> bytes\<close>
  "total_capacity rs =
     sum_list (map (\<lambda>r. case slot_Capacity r of Some c \<Rightarrow> c | None \<Rightarrow> 0) rs) div GiB"

definition memory_status :: "runtime \<Rightarrow> memory_probe \<Rightarrow> members" where
  "memory_status rt p =
     put ''percent'' (JInt (uint (dwMemoryLoad p)))
       (put ''used'' (JFloat (round2 rt (unat (ullTotalPhys p - ullAvailPhys p))))
          (put ''available'' (JFloat (round2 rt (unat (ullAvailPhys p))))
             (put ''total'' (JFloat (round2 rt (unat (ullTotalPhys p)))) [])))"

definition getMemoryInfo :: "runtime \<Rightarrow> exn option \<Rightarrow> memory_probe \<Rightarrow> json call" where
  "getMemoryInfo rt fault p =
     guarded ''getMemoryInfo'' JNull fault
       (case memory_slots p of
          NoService \<Rightarrow> JObj (memory_status rt p)
        | q \<Rightarrow>
            JObj (put ''total_capacity'' (JStr (to_string (total_capacity (rows_of q)) @ '' GB''))
                    (put ''slots'' (JArr (map slot_info (rows_of q))) (memory_status rt p))))"

record net_adapter =
  na_Description :: string
  na_AdapterName :: string
  na_IpAddress :: string
  na_Type :: "32 word"

record net_probe =
  net_malloc :: bool               \<comment> \<open>the first \<^verbatim>\<open>malloc\<close> returns a buffer\<close>
  net_overflow :: bool             \<comment> \<open>the first \<^verbatim>\<open>GetAdaptersInfo\<close> reports \<^verbatim>\<open>ERROR_BUFFER_OVERFLOW\<close>\<close>
  net_realloc :: bool              \<comment> \<open>the second \<^verbatim>\<open>malloc\<close> returns a buffer\<close>
  net_adapters :: "net_adapter list option"  \<comment> \<open>the list read, \<open>None\<close> unless \<^verbatim>\<open>NO_ERROR\<close>\<close>

definition skipped_adapter :: "net_adapter \<Rightarrow> bool" where
  "skipped_adapter a =
     (let description = lower (na_Description a)
      in str_contains description ''virtual'' \<or> str_contains description ''pseudo'' \<or>
         str_contains description ''loopback'' \<or> str_contains description ''microsoft'')"

definition adapter_info :: "net_adapter \<Rightarrow> json" where
  "adapter_info a =
     JObj
       (put ''status''
          (JStr (if na_IpAddress a \<noteq> ''0.0.0.0'' then ''Connected'' else ''Not Connected''))
          (put ''ip_address''
             (JStr (if na_IpAddress a \<noteq> ''0.0.0.0'' then na_IpAddress a else ''N/A''))
             (put ''mac_address'' (JStr (sanitizeString (na_AdapterName a)))
                (put ''name'' (JStr (sanitizeString (na_Description a))) []))))"

definition MIB_IF_TYPE_ETHERNET :: "32 word" where
  "MIB_IF_TYPE_ETHERNET = 6"

definition IF_TYPE_IEEE80211 :: "32 word" where
  "IF_TYPE_IEEE80211 = 71"

definition getNetworkInfo :: "net_probe \<Rightarrow> json" where
  "getNetworkInfo p =
     (if \<not> net_malloc p then JNull
      else if net_overflow p \<and> \<not> net_realloc p then JNull
      else
        (let adapters = filter (\<lambda>a. \<not> skipped_adapter a)
                          (case net_adapters p of Some as \<Rightarrow> as | None \<Rightarrow> []);
             ethernet = map adapter_info
                          (filter (\<lambda>a. na_Type a = MIB_IF_TYPE_ETHERNET) adapters);
             wlan = map adapter_info
                      (filter (\<lambda>a. na_Type a \<noteq> MIB_IF_TYPE_ETHERNET \<and>
                                    na_Type a = IF_TYPE_IEEE80211) adapters)
         in JObj (put ''wlan'' (JArr wlan) (put ''ethernet'' (JArr ethernet) []))))"

section \<open>Storage adapter\<close>
















section \<open>Battery adapter\<close>


definition battery_defaults :: members where
  "battery_defaults =
     [(''percent'', JInt 100), (''power_plugged'', JBool True), (''is_desktop'', JBool True)]"



section \<open>The cache and the refresh scheduler\<close>

text \<open>
  The two cache variables start as null and are written only through \<^verbatim>\<open>operator[]\<close>,
  which turns null into an object: a tier is \<open>None\<close> (null) or \<open>Some\<close> members.
\<close>

type_synonym tier = "members option"

definition tier_json :: "tier \<Rightarrow> json" where
  "tier_json c = (case c of None \<Rightarrow> JNull | Some ms \<Rightarrow> JObj ms)"

definition tier_empty :: "tier \<Rightarrow> bool" where
  \<comment> \<open>\<^verbatim>\<open>json::empty()\<close>: true for null and for an object without members\<close>
  "tier_empty c = (case c of None \<Rightarrow> True | Some ms \<Rightarrow> ms = [])"

definition tier_set :: "string \<Rightarrow> json \<Rightarrow> tier \<Rightarrow> tier" where
  "tier_set k v c = Some (put k v (case c of None \<Rightarrow> [] | Some ms \<Rightarrow> ms))"

text \<open>
  The static members of \<^verbatim>\<open>SystemInfoCollector\<close>, the function-local static
  \<^verbatim>\<open>lastSlowUpdate\<close> of \<^verbatim>\<open>updateSlowData\<close> (\<open>None\<close> until its first call initialises
  it) and the error globals of the C wrapper. Time points are \<^verbatim>\<open>steady_clock\<close> readings
  in nanoseconds; a default-constructed time point is 0.
\<close>

record collector =
  cachedStaticInfo :: tier
  cachedDynamicInfo :: tier
  lastStaticUpdate :: int
  lastDynamicUpdate :: int
  lastSlowUpdate :: "int option"
  running :: bool
  updateThread_joinable :: bool
  g_errorCode :: int
  g_lastError :: string

definition initial_collector :: collector where
  "initial_collector =
     \<lparr>cachedStaticInfo = None, cachedDynamicInfo = None, lastStaticUpdate = 0,
      lastDynamicUpdate = 0, lastSlowUpdate = None, running = True,
      updateThread_joinable = False, g_errorCode = 0, g_lastError = []\<rparr>"

definition STATIC_CACHE_DURATION_SEC :: int where
  "STATIC_CACHE_DURATION_SEC = 60"

definition duration_seconds :: "int \<Rightarrow> int" where
  \<comment> \<open>\<^verbatim>\<open>duration_cast<seconds>(d).count()\<close> of a nanosecond count: division that truncates\<close>
  "duration_seconds d =
     (if 0 \<le> d then d div 1000000000 else - ((- d) div 1000000000))"

text \<open>What calling each adapter does at one moment.\<close>

record adapters =
  call_getDeviceId :: "json call"
  call_getDeviceName :: "json call"
  call_getMotherboardInfo :: "json call"
  call_getGPUInfo :: "json call"
  call_getAudioInfo :: "json call"
  call_getStorageInfo :: "json call"
  call_getBatteryInfo :: "json call"
  call_getNetworkInfo :: "json call"
  call_getCPUInfo :: "json call"
  call_getMemoryInfo :: "json call"

text \<open>
  A computation runs on the collector and the trace so far; it ends with a value or with
  an exception in flight, and in both cases with the collector as it left it.
\<close>

type_synonym world = "collector \<times> event list"

type_synonym 'a prog = "world \<Rightarrow> (exn + 'a) \<times> world"

definition bind :: "'a prog \<Rightarrow> ('a \<Rightarrow> 'b prog) \<Rightarrow> 'b prog" where
  "bind m f = (\<lambda>w. case m w of (Inl e, w') \<Rightarrow> (Inl e, w') | (Inr x, w') \<Rightarrow> f x w')"

definition logged :: "(string \<times> string) list \<Rightarrow> event list" where
  "logged es = map (\<lambda>(component, message). LoggerError component message) es"

definition invoke :: "string \<Rightarrow> 'a call \<Rightarrow> 'a prog" where
  "invoke name c = (\<lambda>(s, tr). (snd c, (s, tr @ Invoke name # logged (fst c))))"

definition modify :: "(collector \<Rightarrow> collector) \<Rightarrow> unit prog" where
  "modify f = (\<lambda>(s, tr). (Inr (), (f s, tr)))"


definition log_and_rethrow :: "string \<Rightarrow> 'a prog \<Rightarrow> 'a prog" where
  \<comment> \<open>\<^verbatim>\<open>catch (const std::exception& e) { systemLog("ERROR", prefix + e.what()); throw; }\<close>\<close>
  "log_and_rethrow prefix m =
     (\<lambda>w. case m w of
             (Inl (StdException what), (s, tr)) \<Rightarrow>
               (Inl (StdException what), (s, tr @ [SystemLog ''ERROR'' (prefix @ what)]))
           | r \<Rightarrow> r)"

definition store_static :: "string \<Rightarrow> string \<Rightarrow> json call \<Rightarrow> unit prog" where
  \<comment> \<open>\<^verbatim>\<open>cachedStaticInfo[key] = adapter();\<close>\<close>
  "store_static key name c =
     bind (invoke name c)
       (\<lambda>v. modify (\<lambda>s. s\<lparr>cachedStaticInfo := tier_set key v (cachedStaticInfo s)\<rparr>))"

definition store_dynamic :: "string \<Rightarrow> string \<Rightarrow> json call \<Rightarrow> unit prog" where
  \<comment> \<open>\<^verbatim>\<open>cachedDynamicInfo[key] = adapter();\<close>\<close>
  "store_dynamic key name c =
     bind (invoke name c)
       (\<lambda>v. modify (\<lambda>s. s\<lparr>cachedDynamicInfo := tier_set key v (cachedDynamicInfo s)\<rparr>))"

definition populate_static :: "adapters \<Rightarrow> unit prog" where
  "populate_static a =
     bind (store_static ''deviceId'' ''getDeviceId'' (call_getDeviceId a)) (\<lambda>_.
     bind (store_static ''deviceName'' ''getDeviceName'' (call_getDeviceName a)) (\<lambda>_.
     bind (store_static ''motherboard'' ''getMotherboardInfo'' (call_getMotherboardInfo a)) (\<lambda>_.
     bind (store_static ''gpu'' ''getGPUInfo'' (call_getGPUInfo a)) (\<lambda>_.
     store_static ''audio'' ''getAudioInfo'' (call_getAudioInfo a)))))"

definition updateFastData :: "adapters \<Rightarrow> unit prog" where
  "updateFastData a =
     bind (store_dynamic ''storage'' ''getStorageInfo'' (call_getStorageInfo a)) (\<lambda>_.
     bind (store_dynamic ''battery'' ''getBatteryInfo'' (call_getBatteryInfo a)) (\<lambda>_.
     store_dynamic ''network'' ''getNetworkInfo'' (call_getNetworkInfo a)))"

definition slow_due :: "int \<Rightarrow> int \<Rightarrow> bool" where
  "slow_due previous now = (1 \<le> duration_seconds (now - previous))"

text \<open>
  \<open>first\<close> is the clock reading that initialises \<^verbatim>\<open>lastSlowUpdate\<close> when this is the
  first call of the function in the process; \<open>now\<close> is the reading taken by every call.
\<close>

definition updateSlowData :: "adapters \<Rightarrow> int \<Rightarrow> int \<Rightarrow> unit prog" where
  "updateSlowData a first now =
     (\<lambda>(s, tr).
        (let previous = (case lastSlowUpdate s of None \<Rightarrow> first | Some t \<Rightarrow> t);
             s1 = s\<lparr>lastSlowUpdate := Some previous\<rparr>
         in if slow_due previous now
            then bind (store_dynamic ''cpu'' ''getCPUInfo'' (call_getCPUInfo a)) (\<lambda>_.
                 bind (store_dynamic ''memory'' ''getMemoryInfo'' (call_getMemoryInfo a)) (\<lambda>_.
                 modify (\<lambda>s2. s2\<lparr>lastSlowUpdate := Some now\<rparr>))) (s1, tr)
            else (Inr (), (s1, tr))))"

definition dump_length :: "runtime \<Rightarrow> (collector \<Rightarrow> json) \<Rightarrow> nat prog" where
  \<comment> \<open>\<^verbatim>\<open>j.dump().length()\<close> of a log line\<close>
  "dump_length rt sel =
     (\<lambda>(s, tr). (case dump rt (sel s) of Inl e \<Rightarrow> Inl e | Inr text \<Rightarrow> Inr (length text), (s, tr)))"

text \<open>
  One iteration of the loop of \<^verbatim>\<open>updateDynamicDataThread\<close>, between the test of
  \<^verbatim>\<open>running\<close> and the 100 ms sleep. Nothing leaves the iteration: both handlers log.
\<close>

definition thread_iteration :: "runtime \<Rightarrow> adapters \<Rightarrow> int \<Rightarrow> int \<Rightarrow> world \<Rightarrow> world" where
  "thread_iteration rt a first now w =
     (case bind (updateFastData a) (\<lambda>_.
           bind (updateSlowData a first now) (\<lambda>_.
           bind (dump_length rt (\<lambda>s. tier_json (cachedDynamicInfo s))) (\<lambda>_.
           dump_length rt (\<lambda>s. tier_json (cachedStaticInfo s))))) w of
        (Inr n, w') \<Rightarrow> w'
      | (Inl (StdException what), (s, tr)) \<Rightarrow>
          (s, tr @ [SystemLog ''ERROR'' (''Error in update thread: '' @ what)])
      | (Inl OtherException, (s, tr)) \<Rightarrow>
          (s, tr @ [SystemLog ''ERROR'' ''Unknown error in update thread'']))"

record init_clock =
  at_static :: int       \<comment> \<open>the reading stored in \<^verbatim>\<open>lastStaticUpdate\<close>\<close>
  at_slow_first :: int   \<comment> \<open>the reading that initialises \<^verbatim>\<open>lastSlowUpdate\<close>\<close>
  at_slow :: int         \<comment> \<open>the reading \<^verbatim>\<open>updateSlowData\<close> compares with it\<close>
  at_dynamic :: int      \<comment> \<open>the reading stored in \<^verbatim>\<open>lastDynamicUpdate\<close>\<close>

definition initializeCache :: "adapters \<Rightarrow> init_clock \<Rightarrow> unit prog" where
  "initializeCache a c =
     log_and_rethrow ''Error in initializeCache: ''
       (bind (populate_static a) (\<lambda>_.
        bind (modify (\<lambda>s. s\<lparr>lastStaticUpdate := at_static c\<rparr>)) (\<lambda>_.
        bind (updateFastData a) (\<lambda>_.
        bind (updateSlowData a (at_slow_first c) (at_slow c)) (\<lambda>_.
        modify (\<lambda>s. s\<lparr>lastDynamicUpdate := at_dynamic c, updateThread_joinable := True\<rparr>))))))"

text \<open>
  \<^verbatim>\<open>cleanup\<close>: \<open>join_fault\<close> is the exception \<^verbatim>\<open>std::thread::join\<close> raises, if any.
\<close>

definition cleanup :: "exn option \<Rightarrow> unit prog" where
  "cleanup join_fault =
     (\<lambda>(s, tr).
        (let s1 = s\<lparr>running := False\<rparr>
         in if updateThread_joinable s1
            then (case join_fault of
                    None \<Rightarrow> (Inr (), (s1\<lparr>updateThread_joinable := False\<rparr>, tr))
                  | Some (StdException what) \<Rightarrow>
                      (Inr (), (s1, tr @ [SystemLog ''ERROR'' (''Error in cleanup: '' @ what)]))
                  | Some OtherException \<Rightarrow> (Inl OtherException, (s1, tr)))
            else (Inr (), (s1, tr))))"

definition static_expired :: "collector \<Rightarrow> int \<Rightarrow> bool" where
  "static_expired s now =
     (tier_empty (cachedStaticInfo s) \<or>
      STATIC_CACHE_DURATION_SEC \<le> duration_seconds (now - lastStaticUpdate s))"

definition merged :: "collector \<Rightarrow> json" where
  \<comment> \<open>\<^verbatim>\<open>info.merge_patch(cachedDynamicInfo); info.merge_patch(cachedStaticInfo);\<close> on a null \<^verbatim>\<open>info\<close>\<close>
  "merged s =
     merge_patch (merge_patch JNull (tier_json (cachedDynamicInfo s)))
       (tier_json (cachedStaticInfo s))"

definition getSystemInfo :: "runtime \<Rightarrow> adapters \<Rightarrow> int \<Rightarrow> json prog" where
  "getSystemInfo rt a now =
     log_and_rethrow ''Error in getSystemInfo: ''
       (bind (\<lambda>(s, tr).
                if static_expired s now
                then bind (populate_static a)
                       (\<lambda>_. modify (\<lambda>s1. s1\<lparr>lastStaticUpdate := now\<rparr>)) (s, tr)
                else (Inr (), (s, tr))) (\<lambda>_.
        bind (dump_length rt merged) (\<lambda>_.
        (\<lambda>(s, tr). (Inr (merged s), (s, tr))))))"







definition invocations :: "event list \<Rightarrow> string list" where
  \<comment> \<open>the adapters a trace shows being invoked, in order\<close>
  "invocations tr = concat (map (\<lambda>e. case e of Invoke n \<Rightarrow> [n] | _ \<Rightarrow> []) tr)"

section \<open>Notions used to state the properties\<close>




text \<open>The adapters of the static tier, in the order in which a refresh invokes them.\<close>

definition static_names :: "string list" where
  "static_names =
     [''getDeviceId'', ''getDeviceName'', ''getMotherboardInfo'', ''getGPUInfo'', ''getAudioInfo'']"


text \<open>
  How a read ends once the static tier is settled: the merged record is serialised for the
  log, and a \<^verbatim>\<open>std::exception\<close> raised there is logged and thrown again.
\<close>

definition read_result :: "runtime \<Rightarrow> world \<Rightarrow> (exn + json) \<times> world" where
  "read_result rt w =
     (case w of (s, tr) \<Rightarrow>
        (case dump rt (merged s) of
           Inr text \<Rightarrow> (Inr (merged s), (s, tr))
         | Inl (StdException what) \<Rightarrow>
             (Inl (StdException what),
              (s, tr @ [SystemLog ''ERROR'' (''Error in getSystemInfo: '' @ what)]))
         | Inl OtherException \<Rightarrow> (Inl OtherException, (s, tr))))"

text \<open>An adapter of the static tier lets the exception \<open>e\<close> escape.\<close>

definition static_raises :: "adapters \<Rightarrow> exn \<Rightarrow> bool" where
  "static_raises a e =
     (snd (call_getDeviceId a) = Inl e \<or> snd (call_getDeviceName a) = Inl e \<or>
      snd (call_getMotherboardInfo a) = Inl e \<or> snd (call_getGPUInfo a) = Inl e \<or>
      snd (call_getAudioInfo a) = Inl e)"




section \<open>Sample inputs\<close>

text \<open>Concrete inputs on which the theorems below are instantiated.\<close>

definition demo_runtime :: runtime where
  "demo_runtime =
     \<lparr>std_hash = (\<lambda>s. 0x0123456789ABCDEF), fixed2 = (\<lambda>b. to_string (b div GiB) @ ''.00''),
      round2 = (\<lambda>b. of_nat (b div GiB)), dump = (\<lambda>j. Inr ''{}'')\<rparr>"













definition demo_adapters :: adapters where
  "demo_adapters =
     \<lparr>call_getDeviceId = ([], Inr (JStr ''id'')),
      call_getDeviceName = ([], Inr (JStr ''QC-PC'')),
      call_getMotherboardInfo = ([], Inr (JObj board_defaults)),
      call_getGPUInfo = ([], Inr (JArr [])),
      call_getAudioInfo = ([], Inr (JArr [])),
      call_getStorageInfo = ([], Inr (JArr [])),
      call_getBatteryInfo = ([], Inr (JObj battery_defaults)),
      call_getNetworkInfo = ([], Inr (JObj [(''ethernet'', JArr []), (''wlan'', JArr [])])),
      call_getCPUInfo = ([], Inr (JArr [])),
      call_getMemoryInfo = ([], Inr (JObj [(''percent'', JInt 40)]))\<rparr>"

definition demo_state :: "int \<Rightarrow> collector" where
  "demo_state now =
     initial_collector
       \<lparr>cachedStaticInfo :=
          Some [(''deviceId'', JStr ''id''), (''deviceName'', JStr ''QC-PC''),
                (''motherboard'', JObj board_defaults), (''gpu'', JArr []), (''audio'', JArr [])],
        lastStaticUpdate := now\<rparr>"

definition demo_trace :: "event list" where
  "demo_trace =
     [Invoke ''getDeviceId'', Invoke ''getDeviceName'', Invoke ''getMotherboardInfo'',
      Invoke ''getGPUInfo'', Invoke ''getAudioInfo'']"

definition demo_loop_state :: collector where
  "demo_loop_state = (demo_state 0)\<lparr>lastSlowUpdate := Some 0, updateThread_joinable := True\<rparr>"



definition demo_clock :: init_clock where
  "demo_clock = \<lparr>at_static = 100, at_slow_first = 200, at_slow = 300, at_dynamic = 400\<rparr>"

section \<open>Properties\<close>

subsection \<open>Battery record\<close>




subsection \<open>Device identity\<close>



















subsection \<open>GPU and VRAM\<close>









subsection \<open>Storage\<close>

lemma map_of_put: "map_of (put k v ms) = (map_of ms)(k \<mapsto> v)"
  by (simp add: put_def update_conv')




lemma jget_put: "jget (JObj (put k v ms)) k' = (if k' = k then Some v else jget (JObj ms) k')"
  by (simp add: jget_def map_of_put)





subsection \<open>Steps of a computation\<close>

lemma bind_Inr: "m w = (Inr x, w') \<Longrightarrow> bind m f w = f x w'"
  by (simp add: bind_def)

lemma invocations_append: "invocations (xs @ ys) = invocations xs @ invocations ys"
  by (simp add: invocations_def)

lemma invocations_logged: "invocations (logged es) = []"
  by (induction es) (auto simp: invocations_def logged_def)

lemma invocations_Invoke: "invocations (Invoke n # tr) = n # invocations tr"
  by (simp add: invocations_def)

lemma invocations_SystemLog: "invocations (SystemLog l m # tr) = invocations tr"
  by (simp add: invocations_def)

lemma invocations_Nil: "invocations [] = []"
  by (simp add: invocations_def)

lemma store_static_returns:
  "snd c = Inr v \<Longrightarrow>
   store_static key name c (s, tr) =
     (Inr (), (s\<lparr>cachedStaticInfo := tier_set key v (cachedStaticInfo s)\<rparr>,
               tr @ Invoke name # logged (fst c)))"
  by (simp add: store_static_def bind_def invoke_def modify_def)


lemma store_dynamic_returns:
  "snd c = Inr v \<Longrightarrow>
   store_dynamic key name c (s, tr) =
     (Inr (), (s\<lparr>cachedDynamicInfo := tier_set key v (cachedDynamicInfo s)\<rparr>,
               tr @ Invoke name # logged (fst c)))"
  by (simp add: store_dynamic_def bind_def invoke_def modify_def)


lemma populate_static_returns:
  assumes "snd (call_getDeviceId a) = Inr v1" "snd (call_getDeviceName a) = Inr v2"
    "snd (call_getMotherboardInfo a) = Inr v3" "snd (call_getGPUInfo a) = Inr v4"
    "snd (call_getAudioInfo a) = Inr v5"
  shows "populate_static a (s, tr) =
     (Inr (),
      (s\<lparr>cachedStaticInfo :=
           tier_set ''audio'' v5 (tier_set ''gpu'' v4 (tier_set ''motherboard'' v3
             (tier_set ''deviceName'' v2 (tier_set ''deviceId'' v1 (cachedStaticInfo s)))))\<rparr>,
       tr @ Invoke ''getDeviceId'' # logged (fst (call_getDeviceId a)) @
            Invoke ''getDeviceName'' # logged (fst (call_getDeviceName a)) @
            Invoke ''getMotherboardInfo'' # logged (fst (call_getMotherboardInfo a)) @
            Invoke ''getGPUInfo'' # logged (fst (call_getGPUInfo a)) @
            Invoke ''getAudioInfo'' # logged (fst (call_getAudioInfo a))))"
  unfolding populate_static_def
  by (simp add: bind_Inr store_static_returns[OF assms(1)] store_static_returns[OF assms(2)]
        store_static_returns[OF assms(3)] store_static_returns[OF assms(4)]
        store_static_returns[OF assms(5)])

lemma tier_set_not_empty: "\<not> tier_empty (tier_set k v c)"
  by (cases c) (auto simp: tier_empty_def tier_set_def put_def update_Some_unfold
      dest: arg_cong[where f = "\<lambda>ms. map_of ms k"])

lemma populate_static_frame:
  assumes "populate_static a (s, tr) = (r, (s', tr'))"
  shows "s'\<lparr>cachedStaticInfo := cachedStaticInfo s\<rparr> = s \<and>
         take (Suc (length tr)) tr' = tr @ [Invoke ''getDeviceId''] \<and>
         (r = Inr () \<longrightarrow> \<not> tier_empty (cachedStaticInfo s'))"
  using assms
  by (auto simp: populate_static_def store_static_def bind_def invoke_def modify_def
        tier_set_not_empty split: sum.splits prod.splits)

lemma populate_static_raises:
  "populate_static a (s, tr) = (Inl e, w) \<Longrightarrow> static_raises a e"
  by (auto simp: populate_static_def store_static_def bind_def invoke_def modify_def
        static_raises_def split: sum.splits prod.splits)

subsection \<open>Reads and the static tier\<close>

lemma duration_seconds_ge:
  "0 < k \<Longrightarrow> (k \<le> duration_seconds d) = (k * 1000000000 \<le> d)"
  unfolding duration_seconds_def by auto

lemma static_expired_iff:
  "static_expired s now =
     (tier_empty (cachedStaticInfo s) \<or> 60000000000 \<le> now - lastStaticUpdate s)"
  by (simp add: static_expired_def STATIC_CACHE_DURATION_SEC_def duration_seconds_ge)

lemma getSystemInfo_fresh:
  "\<not> static_expired s now \<Longrightarrow> getSystemInfo rt a now (s, tr) = read_result rt (s, tr)"
  by (simp add: getSystemInfo_def log_and_rethrow_def bind_def dump_length_def read_result_def
        split: sum.splits exn.splits)

lemma getSystemInfo_refreshed:
  "static_expired s now \<Longrightarrow> populate_static a (s, tr) = (Inr (), (s1, tr1)) \<Longrightarrow>
   getSystemInfo rt a now (s, tr) = read_result rt (s1\<lparr>lastStaticUpdate := now\<rparr>, tr1)"
  by (simp add: getSystemInfo_def log_and_rethrow_def bind_def dump_length_def read_result_def
        modify_def split: sum.splits exn.splits)

lemma getSystemInfo_refresh_raises:
  "static_expired s now \<Longrightarrow> populate_static a (s, tr) = (Inl e, (s1, tr1)) \<Longrightarrow>
   getSystemInfo rt a now (s, tr) =
     (Inl e, (s1, tr1 @ (case e of
                           StdException what \<Rightarrow>
                             [SystemLog ''ERROR'' (''Error in getSystemInfo: '' @ what)]
                         | OtherException \<Rightarrow> [])))"
  by (simp add: getSystemInfo_def log_and_rethrow_def bind_def split: sum.splits exn.splits)

lemma read_result_frame:
  "read_result rt (s, tr) = (r, (s', tr')) \<Longrightarrow>
   s' = s \<and> invocations tr' = invocations tr \<and> (\<forall>info. r = Inr info \<longrightarrow> info = merged s)"
  by (auto simp: read_result_def invocations_append invocations_SystemLog invocations_Nil
      split: sum.splits exn.splits)

lemma read_result_raises:
  "read_result rt (s, tr) = (Inl e, (s', tr')) \<Longrightarrow> dump rt (merged s') = Inl e"
  by (auto simp: read_result_def split: sum.splits exn.splits)


lemma thread_iteration_static:
  "thread_iteration rt a first now (s, tr) = (s', tr') \<Longrightarrow>
   cachedStaticInfo s' = cachedStaticInfo s \<and> lastStaticUpdate s' = lastStaticUpdate s"
  by (auto simp: thread_iteration_def updateFastData_def updateSlowData_def store_dynamic_def
        bind_def invoke_def modify_def dump_length_def Let_def
        split: sum.splits prod.splits exn.splits if_splits)

lemma read_outcome:
  assumes run: "getSystemInfo rt a now (s, tr) = (r, (s', tr'))"
  shows "(static_expired s now \<longrightarrow> (\<exists>rest. invocations tr' = invocations tr @ ''getDeviceId'' # rest)) \<and>
         (\<not> static_expired s now \<longrightarrow> invocations tr' = invocations tr \<and> s' = s) \<and>
         (\<forall>info. r = Inr info \<longrightarrow> \<not> tier_empty (cachedStaticInfo s') \<and> info = merged s') \<and>
         cachedDynamicInfo s' = cachedDynamicInfo s"
proof (cases "static_expired s now")
  case False
  then have "read_result rt (s, tr) = (r, (s', tr'))"
    using run by (simp add: getSystemInfo_fresh)
  from read_result_frame[OF this] False show ?thesis
    by (auto simp: static_expired_def)
next
  case True
  obtain rp s1 tr1 where pop: "populate_static a (s, tr) = (rp, (s1, tr1))"
    by (metis surj_pair)
  note frame = populate_static_frame[OF pop]
  from frame have tr1: "tr1 = tr @ Invoke ''getDeviceId'' # drop (Suc (length tr)) tr1"
    by (metis append_Cons append_Nil append_assoc append_take_drop_id)
  have inv1: "invocations tr1 =
      invocations tr @ ''getDeviceId'' # invocations (drop (Suc (length tr)) tr1)"
    by (subst tr1) (simp add: invocations_append invocations_Invoke)
  from frame have dyn: "cachedDynamicInfo s1 = cachedDynamicInfo s"
    by (metis collector.select_convs(2) collector.surjective collector.update_convs(1))
  show ?thesis
  proof (cases rp)
    case (Inr u)
    then have "read_result rt (s1\<lparr>lastStaticUpdate := now\<rparr>, tr1) = (r, (s', tr'))"
      using run pop True by (simp add: getSystemInfo_refreshed)
    from read_result_frame[OF this] frame Inr inv1 dyn True show ?thesis
      by auto
  next
    case (Inl e)
    then have "(r, (s', tr')) =
        (Inl e, (s1, tr1 @ (case e of
                              StdException what \<Rightarrow>
                                [SystemLog ''ERROR'' (''Error in getSystemInfo: '' @ what)]
                            | OtherException \<Rightarrow> [])))"
      using run pop True by (simp add: getSystemInfo_refresh_raises)
    with inv1 dyn True show ?thesis
      by (cases e)
         (auto simp: invocations_append invocations_SystemLog invocations_Nil)
  qed
qed

lemma read_refresh_all:
  assumes run: "getSystemInfo rt a now (s, tr) = (r, (s', tr'))"
    and exp: "static_expired s now"
    and rets: "snd (call_getDeviceId a) = Inr v1" "snd (call_getDeviceName a) = Inr v2"
      "snd (call_getMotherboardInfo a) = Inr v3" "snd (call_getGPUInfo a) = Inr v4"
      "snd (call_getAudioInfo a) = Inr v5"
  shows "invocations tr' = invocations tr @ static_names \<and>
         cachedStaticInfo s' =
           tier_set ''audio'' v5 (tier_set ''gpu'' v4 (tier_set ''motherboard'' v3
             (tier_set ''deviceName'' v2 (tier_set ''deviceId'' v1 (cachedStaticInfo s))))) \<and>
         lastStaticUpdate s' = now"
proof -
  note pop = populate_static_returns[OF rets, of s tr]
  from getSystemInfo_refreshed[OF exp pop] run
  have "read_result rt
          (s\<lparr>cachedStaticInfo :=
               tier_set ''audio'' v5 (tier_set ''gpu'' v4 (tier_set ''motherboard'' v3
                 (tier_set ''deviceName'' v2 (tier_set ''deviceId'' v1 (cachedStaticInfo s))))),
             lastStaticUpdate := now\<rparr>,
           tr @ Invoke ''getDeviceId'' # logged (fst (call_getDeviceId a)) @
                Invoke ''getDeviceName'' # logged (fst (call_getDeviceName a)) @
                Invoke ''getMotherboardInfo'' # logged (fst (call_getMotherboardInfo a)) @
                Invoke ''getGPUInfo'' # logged (fst (call_getGPUInfo a)) @
                Invoke ''getAudioInfo'' # logged (fst (call_getAudioInfo a))) = (r, (s', tr'))"
    by simp
  from read_result_frame[OF this] show ?thesis
    by (simp add: invocations_append invocations_Invoke invocations_logged static_names_def)
qed

lemma read_raises_only:
  assumes run: "getSystemInfo rt a now (s, tr) = (Inl e, (s', tr'))"
  shows "static_raises a e \<or> dump rt (merged s') = Inl e"
proof (cases "static_expired s now")
  case False
  with run have "read_result rt (s, tr) = (Inl e, (s', tr'))"
    by (simp add: getSystemInfo_fresh)
  then show ?thesis by (simp add: read_result_raises)
next
  case True
  obtain rp s1 tr1 where pop: "populate_static a (s, tr) = (rp, (s1, tr1))"
    by (metis surj_pair)
  show ?thesis
  proof (cases rp)
    case (Inl x)
    with getSystemInfo_refresh_raises[OF True, of a tr x s1 tr1 rt] pop run
    have "x = e" by simp
    with pop Inl show ?thesis by (auto dest: populate_static_raises)
  next
    case (Inr u)
    with getSystemInfo_refreshed[OF True, of a tr s1 tr1 rt] pop run
    have "read_result rt (s1\<lparr>lastStaticUpdate := now\<rparr>, tr1) = (Inl e, (s', tr'))"
      by simp
    then show ?thesis by (simp add: read_result_raises)
  qed
qed

text \<open>
  C4. A read finds the static tier expired exactly when the tier is empty or at least 60
  seconds (60000000000 ns) lie between the read and \<^verbatim>\<open>lastStaticUpdate\<close>, and it invokes
  static adapters exactly then; when they all return, the five of them are invoked in
  order, their values are stored and \<^verbatim>\<open>lastStaticUpdate\<close> becomes the time of the read.
  A read that is not expired leaves the static tier and its timestamp alone, and so does
  an iteration of the background thread. Hence after a read that returned, a second read
  less than 60 seconds after the last static update invokes no adapter and leaves the
  static tier as it was; with an unchanged dynamic tier it returns the same record.
\<close>

theorem static_tier_ttl:
  "(static_expired s now =
      (tier_empty (cachedStaticInfo s) \<or> 60000000000 \<le> now - lastStaticUpdate s)) \<and>
   (getSystemInfo rt a now (s, tr) = (r, (s', tr')) \<longrightarrow>
      (static_expired s now = (invocations tr' \<noteq> invocations tr)) \<and>
      (\<not> static_expired s now \<longrightarrow>
         cachedStaticInfo s' = cachedStaticInfo s \<and> lastStaticUpdate s' = lastStaticUpdate s) \<and>
      (static_expired s now \<and>
       snd (call_getDeviceId a) = Inr v1 \<and> snd (call_getDeviceName a) = Inr v2 \<and>
       snd (call_getMotherboardInfo a) = Inr v3 \<and> snd (call_getGPUInfo a) = Inr v4 \<and>
       snd (call_getAudioInfo a) = Inr v5 \<longrightarrow>
         invocations tr' = invocations tr @ static_names \<and>
         cachedStaticInfo s' =
           tier_set ''audio'' v5 (tier_set ''gpu'' v4 (tier_set ''motherboard'' v3
             (tier_set ''deviceName'' v2 (tier_set ''deviceId'' v1 (cachedStaticInfo s))))) \<and>
         lastStaticUpdate s' = now)) \<and>
   (thread_iteration rt a first now (s, tr) = (s', tr') \<longrightarrow>
      cachedStaticInfo s' = cachedStaticInfo s \<and> lastStaticUpdate s' = lastStaticUpdate s) \<and>
   (getSystemInfo rt a1 t1 (s0, tr0) = (Inr r1, (s1, tr1)) \<and>
    cachedStaticInfo sb = cachedStaticInfo s1 \<and> lastStaticUpdate sb = lastStaticUpdate s1 \<and>
    duration_seconds (t2 - lastStaticUpdate s1) < 60 \<and>
    getSystemInfo rt a2 t2 (sb, trb) = (r2, (s2, tr2)) \<longrightarrow>
      invocations tr2 = invocations trb \<and>
      cachedStaticInfo s2 = cachedStaticInfo s1 \<and> lastStaticUpdate s2 = lastStaticUpdate s1 \<and>
      (cachedDynamicInfo sb = cachedDynamicInfo s1 \<longrightarrow> r2 = Inr r1))"
proof -
  have one: "getSystemInfo rt a now (s, tr) = (r, (s', tr')) \<longrightarrow>
      (static_expired s now = (invocations tr' \<noteq> invocations tr)) \<and>
      (\<not> static_expired s now \<longrightarrow>
         cachedStaticInfo s' = cachedStaticInfo s \<and> lastStaticUpdate s' = lastStaticUpdate s) \<and>
      (static_expired s now \<and>
       snd (call_getDeviceId a) = Inr v1 \<and> snd (call_getDeviceName a) = Inr v2 \<and>
       snd (call_getMotherboardInfo a) = Inr v3 \<and> snd (call_getGPUInfo a) = Inr v4 \<and>
       snd (call_getAudioInfo a) = Inr v5 \<longrightarrow>
         invocations tr' = invocations tr @ static_names \<and>
         cachedStaticInfo s' =
           tier_set ''audio'' v5 (tier_set ''gpu'' v4 (tier_set ''motherboard'' v3
             (tier_set ''deviceName'' v2 (tier_set ''deviceId'' v1 (cachedStaticInfo s))))) \<and>
         lastStaticUpdate s' = now)"
  proof
    assume run: "getSystemInfo rt a now (s, tr) = (r, (s', tr'))"
    note out = read_outcome[OF run]
    have a: "static_expired s now = (invocations tr' \<noteq> invocations tr)"
      using out by auto
    have b: "\<not> static_expired s now \<longrightarrow>
         cachedStaticInfo s' = cachedStaticInfo s \<and> lastStaticUpdate s' = lastStaticUpdate s"
      using out by auto
    have c: "static_expired s now \<and>
       snd (call_getDeviceId a) = Inr v1 \<and> snd (call_getDeviceName a) = Inr v2 \<and>
       snd (call_getMotherboardInfo a) = Inr v3 \<and> snd (call_getGPUInfo a) = Inr v4 \<and>
       snd (call_getAudioInfo a) = Inr v5 \<longrightarrow>
         invocations tr' = invocations tr @ static_names \<and>
         cachedStaticInfo s' =
           tier_set ''audio'' v5 (tier_set ''gpu'' v4 (tier_set ''motherboard'' v3
             (tier_set ''deviceName'' v2 (tier_set ''deviceId'' v1 (cachedStaticInfo s))))) \<and>
         lastStaticUpdate s' = now"
      using read_refresh_all[OF run] by blast
    from a b c show "(static_expired s now = (invocations tr' \<noteq> invocations tr)) \<and>
      (\<not> static_expired s now \<longrightarrow>
         cachedStaticInfo s' = cachedStaticInfo s \<and> lastStaticUpdate s' = lastStaticUpdate s) \<and>
      (static_expired s now \<and>
       snd (call_getDeviceId a) = Inr v1 \<and> snd (call_getDeviceName a) = Inr v2 \<and>
       snd (call_getMotherboardInfo a) = Inr v3 \<and> snd (call_getGPUInfo a) = Inr v4 \<and>
       snd (call_getAudioInfo a) = Inr v5 \<longrightarrow>
         invocations tr' = invocations tr @ static_names \<and>
         cachedStaticInfo s' =
           tier_set ''audio'' v5 (tier_set ''gpu'' v4 (tier_set ''motherboard'' v3
             (tier_set ''deviceName'' v2 (tier_set ''deviceId'' v1 (cachedStaticInfo s))))) \<and>
         lastStaticUpdate s' = now)"
      by (intro conjI)
  qed
  have two: "getSystemInfo rt a1 t1 (s0, tr0) = (Inr r1, (s1, tr1)) \<and>
    cachedStaticInfo sb = cachedStaticInfo s1 \<and> lastStaticUpdate sb = lastStaticUpdate s1 \<and>
    duration_seconds (t2 - lastStaticUpdate s1) < 60 \<and>
    getSystemInfo rt a2 t2 (sb, trb) = (r2, (s2, tr2)) \<longrightarrow>
      invocations tr2 = invocations trb \<and>
      cachedStaticInfo s2 = cachedStaticInfo s1 \<and> lastStaticUpdate s2 = lastStaticUpdate s1 \<and>
      (cachedDynamicInfo sb = cachedDynamicInfo s1 \<longrightarrow> r2 = Inr r1)"
  proof
    assume h: "getSystemInfo rt a1 t1 (s0, tr0) = (Inr r1, (s1, tr1)) \<and>
      cachedStaticInfo sb = cachedStaticInfo s1 \<and> lastStaticUpdate sb = lastStaticUpdate s1 \<and>
      duration_seconds (t2 - lastStaticUpdate s1) < 60 \<and>
      getSystemInfo rt a2 t2 (sb, trb) = (r2, (s2, tr2))"
    then have first: "getSystemInfo rt a1 t1 (s0, tr0) = (Inr r1, (s1, tr1))"
      and second: "getSystemInfo rt a2 t2 (sb, trb) = (r2, (s2, tr2))"
      and same: "cachedStaticInfo sb = cachedStaticInfo s1" "lastStaticUpdate sb = lastStaticUpdate s1"
      and ttl: "duration_seconds (t2 - lastStaticUpdate s1) < 60"
      by simp_all
    from read_outcome[OF first] have filled: "\<not> tier_empty (cachedStaticInfo s1)"
      and r1: "r1 = merged s1"
      by simp_all
    have fresh: "\<not> static_expired sb t2"
      using filled same ttl by (simp add: static_expired_def STATIC_CACHE_DURATION_SEC_def)
    from read_outcome[OF second] fresh have keep: "invocations tr2 = invocations trb" "s2 = sb"
      by simp_all
    have ok: "dump rt (merged s1) \<noteq> Inl e" for e
    proof (cases "static_expired s0 t1")
      case False
      with first have "read_result rt (s0, tr0) = (Inr r1, (s1, tr1))"
        by (simp add: getSystemInfo_fresh)
      then show ?thesis
        by (auto simp: read_result_def split: sum.splits exn.splits)
    next
      case True
      obtain rp sp tp where pop: "populate_static a1 (s0, tr0) = (rp, (sp, tp))"
        by (metis surj_pair)
      show ?thesis
      proof (cases rp)
        case (Inl x)
        with getSystemInfo_refresh_raises[OF True, of a1 tr0 x sp tp rt] pop first show ?thesis
          by simp
      next
        case (Inr u)
        with getSystemInfo_refreshed[OF True, of a1 tr0 sp tp rt] pop first
        have "read_result rt (sp\<lparr>lastStaticUpdate := t1\<rparr>, tp) = (Inr r1, (s1, tr1))"
          by simp
        then show ?thesis
          by (auto simp: read_result_def split: sum.splits exn.splits)
      qed
    qed
    have again: "cachedDynamicInfo sb = cachedDynamicInfo s1 \<longrightarrow> r2 = Inr r1"
    proof
      assume dyn: "cachedDynamicInfo sb = cachedDynamicInfo s1"
      then have m: "merged sb = merged s1"
        using same by (simp add: merged_def)
      from second fresh have "read_result rt (sb, trb) = (r2, (s2, tr2))"
        by (simp add: getSystemInfo_fresh)
      then show "r2 = Inr r1"
        using ok m r1 by (auto simp: read_result_def split: sum.splits exn.splits)
    qed
    from keep same again
    show "invocations tr2 = invocations trb \<and>
      cachedStaticInfo s2 = cachedStaticInfo s1 \<and> lastStaticUpdate s2 = lastStaticUpdate s1 \<and>
      (cachedDynamicInfo sb = cachedDynamicInfo s1 \<longrightarrow> r2 = Inr r1)"
      by simp
  qed
  have iter: "thread_iteration rt a first now (s, tr) = (s', tr') \<longrightarrow>
      cachedStaticInfo s' = cachedStaticInfo s \<and> lastStaticUpdate s' = lastStaticUpdate s"
    using thread_iteration_static by blast
  from static_expired_iff one iter two show ?thesis
    by (intro conjI)
qed

subsection \<open>The refresh loop\<close>

lemma slow_due_iff: "slow_due t now = (1000000000 \<le> now - t)"
  unfolding slow_due_def by (simp add: duration_seconds_ge)

lemma updateFastData_returns:
  assumes "snd (call_getStorageInfo a) = Inr v1" "snd (call_getBatteryInfo a) = Inr v2"
    "snd (call_getNetworkInfo a) = Inr v3"
  shows "updateFastData a (s, tr) =
     (Inr (),
      (s\<lparr>cachedDynamicInfo :=
           tier_set ''network'' v3 (tier_set ''battery'' v2
             (tier_set ''storage'' v1 (cachedDynamicInfo s)))\<rparr>,
       tr @ Invoke ''getStorageInfo'' # logged (fst (call_getStorageInfo a)) @
            Invoke ''getBatteryInfo'' # logged (fst (call_getBatteryInfo a)) @
            Invoke ''getNetworkInfo'' # logged (fst (call_getNetworkInfo a))))"
  unfolding updateFastData_def
  by (simp add: bind_def store_dynamic_returns[OF assms(1)] store_dynamic_returns[OF assms(2)]
        store_dynamic_returns[OF assms(3)])












subsection \<open>Merging the tiers\<close>






subsection \<open>Lifecycle\<close>

lemma cleanup_not_joinable:
  "\<not> updateThread_joinable s \<Longrightarrow> cleanup jf (s, tr) = (Inr (), (s\<lparr>running := False\<rparr>, tr))"
  by (simp add: cleanup_def)

lemma cleanup_joined:
  "cleanup None (s, tr) = (Inr (), (s\<lparr>running := False, updateThread_joinable := False\<rparr>, tr))"
  by (simp add: cleanup_def Let_def) 

text \<open>
  C9. The read has no check of the lifecycle: on the collector that was never
  initialised the static tier counts as expired, the read fills it and returns the merged
  record, without any dynamic category; the only exceptions a read ends with are those an
  adapter of the static tier lets escape and those of the serialisation. \<^verbatim>\<open>cleanup\<close>
  clears the running flag and joins the thread only if it is joinable: called again after a
  join, it changes nothing and returns normally, whatever \<^verbatim>\<open>join\<close> would do.
\<close>

theorem lifecycle_misuse_absorbed:
  "static_expired initial_collector now \<and>
   (getSystemInfo rt a now (s, tr) = (Inl e, (s', tr')) \<longrightarrow>
      static_raises a e \<or> dump rt (merged s') = Inl e) \<and>
   (getSystemInfo rt a now (initial_collector, tr) = (Inr info, (s', tr')) \<longrightarrow>
      info = merged s' \<and> \<not> tier_empty (cachedStaticInfo s') \<and> cachedDynamicInfo s' = None) \<and>
   cleanup None (s, tr) =
     (Inr (), (s\<lparr>running := False, updateThread_joinable := False\<rparr>, tr)) \<and>
   cleanup jf (s\<lparr>running := False, updateThread_joinable := False\<rparr>, tr) =
     (Inr (), (s\<lparr>running := False, updateThread_joinable := False\<rparr>, tr))"
proof -
  have empty: "static_expired initial_collector now"
    by (simp add: static_expired_def initial_collector_def tier_empty_def)
  have raises: "getSystemInfo rt a now (s, tr) = (Inl e, (s', tr')) \<longrightarrow>
      static_raises a e \<or> dump rt (merged s') = Inl e"
    using read_raises_only by blast
  have before: "getSystemInfo rt a now (initial_collector, tr) = (Inr info, (s', tr')) \<longrightarrow>
      info = merged s' \<and> \<not> tier_empty (cachedStaticInfo s') \<and> cachedDynamicInfo s' = None"
    using read_outcome[of rt a now initial_collector tr "Inr info" s' tr']
    by (simp add: initial_collector_def)
  have again: "cleanup jf (s\<lparr>running := False, updateThread_joinable := False\<rparr>, tr) =
      (Inr (), (s\<lparr>running := False, updateThread_joinable := False\<rparr>, tr))"
    by (simp add: cleanup_not_joinable)
  from empty raises before cleanup_joined again show ?thesis
    by (intro conjI)
qed

subsection \<open>Adapter failures\<close>








subsection \<open>Runs on the sample inputs\<close>

lemma demo_dump: "dump demo_runtime j = Inr ''{}''"
  by (simp add: demo_runtime_def)

lemma read_result_demo: "read_result demo_runtime (s, tr) = (Inr (merged s), (s, tr))"
  by (simp add: read_result_def demo_dump)

lemma demo_static_returns:
  "snd (call_getDeviceId demo_adapters) = Inr (JStr ''id'')"
  "snd (call_getDeviceName demo_adapters) = Inr (JStr ''QC-PC'')"
  "snd (call_getMotherboardInfo demo_adapters) = Inr (JObj board_defaults)"
  "snd (call_getGPUInfo demo_adapters) = Inr (JArr [])"
  "snd (call_getAudioInfo demo_adapters) = Inr (JArr [])"
  by (simp_all add: demo_adapters_def)

lemma demo_dynamic_returns:
  "snd (call_getStorageInfo demo_adapters) = Inr (JArr [])"
  "snd (call_getBatteryInfo demo_adapters) = Inr (JObj battery_defaults)"
  "snd (call_getNetworkInfo demo_adapters) =
     Inr (JObj [(''ethernet'', JArr []), (''wlan'', JArr [])])"
  "snd (call_getCPUInfo demo_adapters) = Inr (JArr [])"
  "snd (call_getMemoryInfo demo_adapters) = Inr (JObj [(''percent'', JInt 40)])"
  by (simp_all add: demo_adapters_def)

lemma demo_silent:
  "fst (call_getDeviceId demo_adapters) = []" "fst (call_getDeviceName demo_adapters) = []"
  "fst (call_getMotherboardInfo demo_adapters) = []" "fst (call_getGPUInfo demo_adapters) = []"
  "fst (call_getAudioInfo demo_adapters) = []"
  by (simp_all add: demo_adapters_def)

lemma demo_populate:
  "populate_static demo_adapters (initial_collector, tr) =
     (Inr (), (demo_state 0, tr @ demo_trace))"
  using populate_static_returns[OF demo_static_returns, of initial_collector tr]
  by (simp add: demo_silent demo_state_def demo_trace_def initial_collector_def tier_set_def
        put_def logged_def)

lemma demo_state_time: "(demo_state 0)\<lparr>lastStaticUpdate := now\<rparr> = demo_state now"
  by (simp add: demo_state_def)

lemma initial_expired: "static_expired initial_collector now"
  by (simp add: static_expired_def initial_collector_def tier_empty_def)

lemma demo_read_initial:
  "getSystemInfo demo_runtime demo_adapters now (initial_collector, tr) =
     (Inr (merged (demo_state now)), (demo_state now, tr @ demo_trace))"
  by (simp add: getSystemInfo_refreshed[OF initial_expired demo_populate] read_result_demo
        demo_state_time)

lemma invocations_demo_trace: "invocations demo_trace = static_names"
  by (simp add: demo_trace_def invocations_def static_names_def)

text \<open>
  A first read at 5 s on the fresh collector refreshes the static tier; a second read at
  30 s invokes nothing and returns the same record.
\<close>

theorem static_tier_ttl_witness:
  "static_expired initial_collector 5000000000 \<and>
   getSystemInfo demo_runtime demo_adapters 5000000000 (initial_collector, []) =
     (Inr (merged (demo_state 5000000000)), (demo_state 5000000000, demo_trace)) \<and>
   invocations demo_trace = static_names \<and>
   duration_seconds (30000000000 - lastStaticUpdate (demo_state 5000000000)) < 60 \<and>
   invocations (snd (snd (getSystemInfo demo_runtime demo_adapters 30000000000
                            (demo_state 5000000000, demo_trace)))) = invocations demo_trace \<and>
   cachedStaticInfo (fst (snd (getSystemInfo demo_runtime demo_adapters 30000000000
                                 (demo_state 5000000000, demo_trace)))) =
     cachedStaticInfo (demo_state 5000000000) \<and>
   fst (getSystemInfo demo_runtime demo_adapters 30000000000 (demo_state 5000000000, demo_trace)) =
     Inr (merged (demo_state 5000000000))"
proof -
  have first: "getSystemInfo demo_runtime demo_adapters 5000000000 (initial_collector, []) =
     (Inr (merged (demo_state 5000000000)), (demo_state 5000000000, demo_trace))"
    using demo_read_initial[of 5000000000 "[]"] by simp
  have ttl: "duration_seconds (30000000000 - lastStaticUpdate (demo_state 5000000000)) < 60"
    by (simp add: demo_state_def duration_seconds_def)
  note second = static_tier_ttl[where ?a1.0 = demo_adapters and ?t1.0 = 5000000000
      and ?s0.0 = initial_collector and ?tr0.0 = "[]" and rt = demo_runtime
      and ?r1.0 = "merged (demo_state 5000000000)" and ?s1.0 = "demo_state 5000000000"
      and ?tr1.0 = demo_trace and sb = "demo_state 5000000000" and ?t2.0 = 30000000000
      and ?a2.0 = demo_adapters and trb = demo_trace
      and ?r2.0 = "fst (getSystemInfo demo_runtime demo_adapters 30000000000
                         (demo_state 5000000000, demo_trace))"
      and ?s2.0 = "fst (snd (getSystemInfo demo_runtime demo_adapters 30000000000
                               (demo_state 5000000000, demo_trace)))"
      and ?tr2.0 = "snd (snd (getSystemInfo demo_runtime demo_adapters 30000000000
                                (demo_state 5000000000, demo_trace)))",
      THEN conjunct2, THEN conjunct2, THEN conjunct2]
  from second first ttl initial_expired invocations_demo_trace show ?thesis
    by simp
qed







text \<open>
  The read on the fresh collector returns the static categories only; the second
  \<^verbatim>\<open>cleanup\<close> is a no-op.
\<close>

theorem lifecycle_misuse_absorbed_witness:
  "getSystemInfo demo_runtime demo_adapters 0 (initial_collector, []) =
     (Inr (merged (demo_state 0)), (demo_state 0, demo_trace)) \<and>
   cachedDynamicInfo (demo_state 0) = None \<and>
   \<not> tier_empty (cachedStaticInfo (demo_state 0)) \<and>
   cleanup None (demo_loop_state\<lparr>running := False, updateThread_joinable := False\<rparr>, []) =
     (Inr (), (demo_loop_state\<lparr>running := False, updateThread_joinable := False\<rparr>, []))"
proof -
  have r: "getSystemInfo demo_runtime demo_adapters 0 (initial_collector, []) =
     (Inr (merged (demo_state 0)), (demo_state 0, demo_trace))"
    using demo_read_initial[of 0 "[]"] by simp
  note inst = lifecycle_misuse_absorbed[where rt = demo_runtime and a = demo_adapters and now = 0
      and tr = "[]" and info = "merged (demo_state 0)" and s' = "demo_state 0"
      and tr' = demo_trace and s = demo_loop_state and jf = None]
  from inst[THEN conjunct2, THEN conjunct2, THEN conjunct1] r
  have a: "cachedDynamicInfo (demo_state 0) = None" "\<not> tier_empty (cachedStaticInfo (demo_state 0))"
    by simp_all
  from inst[THEN conjunct2, THEN conjunct2, THEN conjunct2, THEN conjunct2]
  have b: "cleanup None (demo_loop_state\<lparr>running := False, updateThread_joinable := False\<rparr>, []) =
     (Inr (), (demo_loop_state\<lparr>running := False, updateThread_joinable := False\<rparr>, []))"
    by simp
  from r a b show ?thesis by simp
qed

lemma demo_snapshot_name: "jget (merged (demo_state 0)) ''deviceName'' = Some (JStr ''QC-PC'')"
  by (simp add: merged_def demo_state_def initial_collector_def tier_json_def jget_def)

text \<open>
  Neither misuse signals anything: the read before \<^verbatim>\<open>initializeCache\<close> returns a record,
  and so do the first and the second \<^verbatim>\<open>cleanup\<close>.
\<close>

theorem misuse_returns_normally:
  "fst (getSystemInfo demo_runtime demo_adapters 0 (initial_collector, [])) =
     Inr (merged (demo_state 0)) \<and>
   jget (merged (demo_state 0)) ''deviceName'' = Some (JStr ''QC-PC'') \<and>
   fst (cleanup None (demo_loop_state, [])) = Inr () \<and>
   fst (cleanup None (snd (cleanup None (demo_loop_state, [])))) = Inr ()"
proof -
  have a: "fst (getSystemInfo demo_runtime demo_adapters 0 (initial_collector, [])) =
      Inr (merged (demo_state 0))"
    by (simp only: demo_read_initial fst_conv)
  have b: "fst (cleanup None (demo_loop_state, [])) = Inr ()"
    by (simp only: cleanup_joined fst_conv)
  have c: "fst (cleanup None (snd (cleanup None (demo_loop_state, [])))) = Inr ()"
    by (simp only: cleanup_joined fst_conv snd_conv)
  from a demo_snapshot_name b c show ?thesis by (intro conjI)
qed

subsection \<open>Categories without their source\<close>

lemma memory_status_keys:
  "jget (JObj (memory_status rt p)) k =
     (if k = ''percent'' then Some (JInt (uint (dwMemoryLoad p)))
      else if k = ''used'' then Some (JFloat (round2 rt (unat (ullTotalPhys p - ullAvailPhys p))))
      else if k = ''available'' then Some (JFloat (round2 rt (unat (ullAvailPhys p))))
      else if k = ''total'' then Some (JFloat (round2 rt (unat (ullTotalPhys p))))
      else None)"
  by (simp add: memory_status_def jget_put) (simp add: jget_def)

lemma demo_initialize:
  "initializeCache demo_adapters demo_clock (initial_collector, []) =
     (Inr (),
      ((demo_state 100)
         \<lparr>cachedDynamicInfo :=
            tier_set ''network'' (JObj [(''ethernet'', JArr []), (''wlan'', JArr [])])
              (tier_set ''battery'' (JObj battery_defaults) (tier_set ''storage'' (JArr []) None)),
          lastSlowUpdate := Some 200, lastDynamicUpdate := 400, updateThread_joinable := True\<rparr>,
       demo_trace @ [Invoke ''getStorageInfo'', Invoke ''getBatteryInfo'', Invoke ''getNetworkInfo'']))"
proof -
  have pop: "populate_static demo_adapters (initial_collector, []) = (Inr (), (demo_state 0, demo_trace))"
    using demo_populate[of "[]"] by simp
  have fast: "updateFastData demo_adapters (demo_state 100, demo_trace) =
      (Inr (),
       ((demo_state 100)
          \<lparr>cachedDynamicInfo :=
             tier_set ''network'' (JObj [(''ethernet'', JArr []), (''wlan'', JArr [])])
               (tier_set ''battery'' (JObj battery_defaults) (tier_set ''storage'' (JArr []) None))\<rparr>,
        demo_trace @ [Invoke ''getStorageInfo'', Invoke ''getBatteryInfo'', Invoke ''getNetworkInfo'']))"
    using updateFastData_returns[OF demo_dynamic_returns(1-3), of "demo_state 100" demo_trace]
    by (simp add: demo_adapters_def logged_def demo_state_def initial_collector_def)
  have due: "\<not> slow_due 200 300"
    by (simp add: slow_due_iff)
  have slow: "updateSlowData demo_adapters 200 300 (S, T) =
      (Inr (), (S\<lparr>lastSlowUpdate := Some 200\<rparr>, T))" if "lastSlowUpdate S = None" for S T
    by (simp add: updateSlowData_def Let_def due that)
  have unset: "lastSlowUpdate ((demo_state 100)\<lparr>cachedDynamicInfo := c\<rparr>) = None" for c
    by (simp add: demo_state_def initial_collector_def)
  show ?thesis
    unfolding initializeCache_def log_and_rethrow_def
    by (simp add: bind_def pop modify_def demo_state_time demo_clock_def fast slow unset)
qed

text \<open>
  C3. Without a WMI service the memory adapter returns the four status members and
  neither \<open>slots\<close> nor \<open>total_capacity\<close>, and the merged record carries this value as
  it is. A failed allocation makes the network adapter return null, and a null member of
  the dynamic tier is erased from the merged record. After \<^verbatim>\<open>initializeCache\<close> the
  dynamic tier has no \<open>cpu\<close> and no \<open>memory\<close> member, since the first call of
  \<^verbatim>\<open>updateSlowData\<close> only initialises its timestamp.
\<close>

theorem missing_keys_when_unavailable:
  "getMemoryInfo rt None (p\<lparr>memory_slots := NoService\<rparr>) = ([], Inr (JObj (memory_status rt p))) \<and>
   jget (JObj (memory_status rt p)) ''slots'' = None \<and>
   jget (JObj (memory_status rt p)) ''total_capacity'' = None \<and>
   jget (merged ((demo_state 0)\<lparr>cachedDynamicInfo :=
                   Some [(''memory'', JObj (memory_status rt p))]\<rparr>)) ''memory'' =
     Some (JObj (memory_status rt p)) \<and>
   getNetworkInfo (np\<lparr>net_malloc := False\<rparr>) = JNull \<and>
   jget (merged ((demo_state 0)\<lparr>cachedDynamicInfo := Some [(''network'', JNull)]\<rparr>)) ''network'' =
     None \<and>
   fst (initializeCache demo_adapters demo_clock (initial_collector, [])) = Inr () \<and>
   jget (merged (fst (snd (initializeCache demo_adapters demo_clock (initial_collector, [])))))
     ''cpu'' = None \<and>
   jget (merged (fst (snd (initializeCache demo_adapters demo_clock (initial_collector, [])))))
     ''memory'' = None"
proof -
  have a: "getMemoryInfo rt None (p\<lparr>memory_slots := NoService\<rparr>) =
      ([], Inr (JObj (memory_status rt p)))"
    by (simp add: getMemoryInfo_def guarded_def memory_status_def)
  have b: "jget (JObj (memory_status rt p)) ''slots'' = None"
    "jget (JObj (memory_status rt p)) ''total_capacity'' = None"
    by (simp_all add: memory_status_keys)
  have m: "jget (merged ((demo_state 0)\<lparr>cachedDynamicInfo :=
                   Some [(''memory'', JObj (memory_status rt p))]\<rparr>)) ''memory'' =
     Some (JObj (memory_status rt p))"
    by (simp add: merged_def demo_state_def initial_collector_def tier_json_def jget_def
          memory_status_def put_def)
  have c: "getNetworkInfo (np\<lparr>net_malloc := False\<rparr>) = JNull"
    by (simp add: getNetworkInfo_def)
  have d: "jget (merged ((demo_state 0)\<lparr>cachedDynamicInfo := Some [(''network'', JNull)]\<rparr>))
      ''network'' = None"
    by (simp add: merged_def demo_state_def initial_collector_def tier_json_def jget_def)
  have e: "fst (initializeCache demo_adapters demo_clock (initial_collector, [])) = Inr ()"
    by (simp only: demo_initialize fst_conv)
  have f: "jget (merged (fst (snd (initializeCache demo_adapters demo_clock (initial_collector, [])))))
     ''cpu'' = None"
    "jget (merged (fst (snd (initializeCache demo_adapters demo_clock (initial_collector, [])))))
     ''memory'' = None"
    unfolding demo_initialize fst_conv snd_conv
    by (simp_all add: merged_def demo_state_def initial_collector_def tier_json_def jget_def
          tier_set_def put_def battery_defaults_def)
  from a b m c d e f show ?thesis by (intro conjI)
qed

end
